theory Spec2Isabelle
  imports Main
begin

section \<open>The resilient fetch-cache bridge: \<open>try_cache\<close>\<close>

text \<open>
  Source: \<^verbatim>\<open>src/notifier/database/drivers/base.py\<close>, function \<^verbatim>\<open>try_cache\<close>.

  A Python exception is an object of some class; \<^verbatim>\<open>except catch\<close> with a tuple of
  classes catches it when it is an instance of one of them, that is when one of them is
  its own class or one of the classes its class inherits from. The text of the exception
  is what \<^verbatim>\<open>str(error)\<close> gives.
\<close>

record py_exception =
  exc_class :: string
  exc_bases :: "string list"
  exc_text :: string

definition py_isinstance :: "py_exception \<Rightarrow> string list \<Rightarrow> bool" where
  "py_isinstance error classes =
     list_ex (\<lambda>c. c = exc_class error \<or> c \<in> set (exc_bases error)) classes"

text \<open>Reading an attribute that the object does not have.\<close>

definition attribute_error :: "string \<Rightarrow> py_exception" where
  "attribute_error attribute =
     \<lparr>exc_class = ''AttributeError'',
      exc_bases = [''Exception'', ''BaseException'', ''object''],
      exc_text = ''object has no attribute '' @ [CHR 0x27] @ attribute @ [CHR 0x27]\<rparr>"

text \<open>
  The two callables run in a world \<open>'w\<close> (everything they can reach: the remote site and
  the cache). \<^verbatim>\<open>get\<close> takes no argument and either returns a value or raises;
  \<^verbatim>\<open>store\<close> takes the value and either returns or raises. Both may change the
  world. \<^verbatim>\<open>get.__name__\<close> is the name of the callable: a function, a lambda and a
  bound method have one, a \<^verbatim>\<open>functools.partial\<close> object has none (\<open>None\<close>), and
  reading it then raises \<^verbatim>\<open>AttributeError\<close>.
\<close>

record ('w, 'v) getter =
  getter_name :: "string option"
  getter_call :: "'w \<Rightarrow> (py_exception + 'v) \<times> 'w"

type_synonym ('w, 'v) storer = "'v \<Rightarrow> 'w \<Rightarrow> (py_exception + unit) \<times> 'w"

text \<open>
  What one call of \<^verbatim>\<open>try_cache\<close> leaves behind: the exception that leaves the call
  (\<open>None\<close> when it returns normally; its return value is always \<^verbatim>\<open>None\<close>), the
  world, the lines printed, and the arguments \<^verbatim>\<open>store\<close> was called with, in order.
\<close>

record ('w, 'v) try_cache_run =
  raised :: "py_exception option"
  world :: 'w
  printed :: "string list"
  store_calls :: "'v list"

text \<open>\<^verbatim>\<open>if catch is None: catch = tuple()\<close>\<close>

definition catch_classes :: "string list option \<Rightarrow> string list" where
  "catch_classes catch = (case catch of None \<Rightarrow> [] | Some classes \<Rightarrow> classes)"

text \<open>
  The last statement, \<^verbatim>\<open>if value != do_not_store: store(value)\<close>, with the lines
  printed so far. What \<^verbatim>\<open>!=\<close> gives is decided by the values (their \<^verbatim>\<open>__ne__\<close>)
  and need not be the negation of an equality: \<^verbatim>\<open>float('nan') != float('nan')\<close> is
  true. It is the parameter \<open>ne\<close>.
\<close>

definition store_unless_skipped ::
  "('v \<Rightarrow> 'v \<Rightarrow> bool) \<Rightarrow> ('w, 'v) storer \<Rightarrow> 'v \<Rightarrow> 'v \<Rightarrow> string list \<Rightarrow> 'w
     \<Rightarrow> ('w, 'v) try_cache_run" where
  "store_unless_skipped ne store do_not_store val out w =
     (if ne val do_not_store then
        (case store val w of
           (Inl error, w') \<Rightarrow>
             \<lparr>raised = Some error, world = w', printed = out, store_calls = [val]\<rparr>
         | (Inr _, w') \<Rightarrow>
             \<lparr>raised = None, world = w', printed = out, store_calls = [val]\<rparr>)
      else \<lparr>raised = None, world = w, printed = out, store_calls = []\<rparr>)"

text \<open>
  In the handler the first \<^verbatim>\<open>print\<close> formats \<^verbatim>\<open>get.__name__\<close> before it prints;
  when the callable has no name the \<^verbatim>\<open>AttributeError\<close> leaves \<^verbatim>\<open>try_cache\<close> with
  nothing printed and \<^verbatim>\<open>store\<close> not called.
\<close>

definition try_cache ::
  "('v \<Rightarrow> 'v \<Rightarrow> bool) \<Rightarrow> ('w, 'v) getter \<Rightarrow> ('w, 'v) storer \<Rightarrow> 'v \<Rightarrow> string list option
     \<Rightarrow> 'w \<Rightarrow> ('w, 'v) try_cache_run" where
  "try_cache ne get store do_not_store catch w =
     (case getter_call get w of
        (Inr val, w') \<Rightarrow> store_unless_skipped ne store do_not_store val [] w'
      | (Inl error, w') \<Rightarrow>
          if py_isinstance error (catch_classes catch) then
            (case getter_name get of
               None \<Rightarrow>
                 \<lparr>raised = Some (attribute_error ''__name__''), world = w', printed = [],
                  store_calls = []\<rparr>
             | Some name \<Rightarrow>
                 store_unless_skipped ne store do_not_store do_not_store
                   [name @ '' failed; will use value from cache'',
                    ''Failure: '' @ exc_text error] w')
          else \<lparr>raised = Some error, world = w', printed = [], store_calls = []\<rparr>)"


section \<open>The query file cache: \<open>DatabaseWithSqlFileCache\<close>\<close>

text \<open>
  Source: \<^verbatim>\<open>src/notifier/database/drivers/base.py\<close>, class
  \<^verbatim>\<open>DatabaseWithSqlFileCache\<close>.

  \<^verbatim>\<open>builtin_queries_dir.iterdir()\<close> yields the entries of the query directory in
  some order, or raises \<^verbatim>\<open>FileNotFoundError\<close> when the directory is not there. An
  entry has a name and is a file whose contents decode as text, a file whose contents do
  not (\<^verbatim>\<open>file.read()\<close> raises \<^verbatim>\<open>UnicodeDecodeError\<close>), a subdirectory
  (\<^verbatim>\<open>open\<close> raises \<^verbatim>\<open>IsADirectoryError\<close>) or a file that may not be read
  (\<^verbatim>\<open>open\<close> raises \<^verbatim>\<open>PermissionError\<close>).
\<close>

datatype file_content = TextFile string | UndecodableFile | Directory | Forbidden

record dir_entry =
  entry_name :: string
  entry_content :: file_content

text \<open>An entry of \<^verbatim>\<open>query_cache\<close>: the dict with keys \<^verbatim>\<open>"script"\<close> and \<^verbatim>\<open>"query"\<close>.\<close>

record query_def =
  script :: bool
  query :: string

text \<open>
  The exceptions of this class: \<^verbatim>\<open>ValueError\<close>, the subclasses of \<^verbatim>\<open>OSError\<close>, and
  \<^verbatim>\<open>UnicodeDecodeError\<close>, which is a subclass of \<^verbatim>\<open>ValueError\<close>.
\<close>

definition value_error :: "string \<Rightarrow> py_exception" where
  "value_error message =
     \<lparr>exc_class = ''ValueError'',
      exc_bases = [''Exception'', ''BaseException'', ''object''],
      exc_text = message\<rparr>"

definition os_error :: "string \<Rightarrow> string \<Rightarrow> py_exception" where
  "os_error subclass filename =
     \<lparr>exc_class = subclass,
      exc_bases = [''OSError'', ''Exception'', ''BaseException'', ''object''],
      exc_text = filename\<rparr>"

definition unicode_decode_error :: "string \<Rightarrow> py_exception" where
  "unicode_decode_error filename =
     \<lparr>exc_class = ''UnicodeDecodeError'',
      exc_bases = [''UnicodeError'', ''ValueError'', ''Exception'', ''BaseException'', ''object''],
      exc_text = filename\<rparr>"

text \<open>
  The driver object holds \<^verbatim>\<open>query_cache\<close>; the directory is outside it and may be
  edited or removed between calls (\<open>None\<close>: it is not there). \<open>scans\<close> counts the
  directory listings made and \<open>opened\<close> lists the files opened, so that a read of the
  resource store is visible.
\<close>

record driver_state =
  query_cache :: "string \<rightharpoonup> query_def"
  queries_dir :: "dir_entry list option"
  scans :: nat
  opened :: "string list"

text \<open>\<^verbatim>\<open>str.split(sep)\<close> for a one-character separator: never an empty list.\<close>

fun split_on :: "char \<Rightarrow> string \<Rightarrow> string list" where
  "split_on sep [] = [[]]"
| "split_on sep (c # cs) =
     (if c = sep then [] # split_on sep cs
      else (case split_on sep cs of
              [] \<Rightarrow> [[c]]
            | w # ws \<Rightarrow> (c # w) # ws))"

text \<open>\<^verbatim>\<open>path.name.split(".")[0]\<close>\<close>

definition name_before_dot :: "string \<Rightarrow> string" where
  "name_before_dot name = (case split_on CHR ''.'' name of [] \<Rightarrow> [] | w # _ \<Rightarrow> w)"

text \<open>\<^verbatim>\<open>str.endswith\<close>\<close>

definition endswith :: "string \<Rightarrow> string \<Rightarrow> bool" where
  "endswith s suffix =
     (length suffix \<le> length s \<and> drop (length s - length suffix) s = suffix)"

definition clear_query_file_cache :: "driver_state \<Rightarrow> driver_state" where
  "clear_query_file_cache self = self\<lparr>query_cache := Map.empty\<rparr>"

text \<open>
  \<^verbatim>\<open>next(path for path in ... if ...)\<close> takes the first entry that matches and raises
  \<^verbatim>\<open>StopIteration\<close> when none does, which the source turns into \<^verbatim>\<open>ValueError\<close>;
  an exception of \<^verbatim>\<open>iterdir\<close>, \<^verbatim>\<open>open\<close> or \<^verbatim>\<open>read\<close> is not caught and leaves the
  method before \<^verbatim>\<open>query_cache\<close> is assigned.
\<close>

definition read_query_file ::
  "string \<Rightarrow> driver_state \<Rightarrow> (py_exception + unit) \<times> driver_state" where
  "read_query_file query_name self =
     (let listed = self\<lparr>scans := Suc (scans self)\<rparr> in
      case queries_dir self of
        None \<Rightarrow> (Inl (os_error ''FileNotFoundError'' ''queries''), listed)
      | Some entries \<Rightarrow>
          (case List.find (\<lambda>path. name_before_dot (entry_name path) = query_name) entries of
             None \<Rightarrow>
               (Inl (value_error (''Query '' @ query_name @ '' does not exist'')), listed)
           | Some query_path \<Rightarrow>
               (case entry_content query_path of
                  Directory \<Rightarrow>
                    (Inl (os_error ''IsADirectoryError'' (entry_name query_path)), listed)
                | Forbidden \<Rightarrow>
                    (Inl (os_error ''PermissionError'' (entry_name query_path)), listed)
                | UndecodableFile \<Rightarrow>
                    (Inl (unicode_decode_error (entry_name query_path)),
                     listed\<lparr>opened := opened listed @ [entry_name query_path]\<rparr>)
                | TextFile text \<Rightarrow>
                    (Inr (),
                     listed\<lparr>opened := opened listed @ [entry_name query_path],
                            query_cache := (query_cache listed)(query_name \<mapsto>
                              \<lparr>script = endswith (entry_name query_path) ''.script.sql'',
                               query = text\<rparr>)\<rparr>))))"

definition cache_named_query ::
  "string \<Rightarrow> driver_state \<Rightarrow> (py_exception + unit) \<times> driver_state" where
  "cache_named_query query_name self =
     (if query_name \<notin> dom (query_cache self) then read_query_file query_name self
      else (Inr (), self))"


section \<open>The digest of one user: \<open>get_new_posts_for_user\<close>\<close>

text \<open>
  Source: \<^verbatim>\<open>src/notifier/database.py\<close>, \<^verbatim>\<open>SqliteDriver.get_new_posts_for_user\<close>.

  The rows that a query returns are read by column name; the method reads only the
  column \<^verbatim>\<open>"id"\<close> (here \<open>row_id\<close>, as \<open>id\<close> is the identity function of HOL). Any
  record that extends \<open>sql_row\<close> is a row.
\<close>

record sql_row =
  row_id :: string

text \<open>\<^verbatim>\<open>NewPostsInfo\<close> of \<^verbatim>\<open>src/notifier/types.py\<close>\<close>

record ('a, 'b) new_posts_info =
  thread_posts :: "'a list"
  post_replies :: "'b list"

text \<open>
  The table \<^verbatim>\<open>queries\<close> is imported from \<^verbatim>\<open>.databasequeries\<close>, which is not among
  the sources, so the two entries the method uses are parameters: what
  \<^verbatim>\<open>self.conn.execute(queries[name], {"user_id": ..., "search_timestamp": ...}).fetchall()\<close>
  gives on the connection \<open>'c\<close>, rows or the error that \<^verbatim>\<open>sqlite3\<close> raises. The method
  hands its second argument to both queries as it received it.
\<close>

record ('c, 't, 'a, 'b) query_table =
  get_posts_in_subscribed_threads :: "'c \<Rightarrow> string \<Rightarrow> 't \<Rightarrow> string + 'a list"
  get_replies_to_subscribed_posts :: "'c \<Rightarrow> string \<Rightarrow> 't \<Rightarrow> string + 'b list"

definition get_new_posts_for_user ::
  "('c, 't, 'a sql_row_scheme, 'b sql_row_scheme) query_table \<Rightarrow> 'c \<Rightarrow> string \<Rightarrow> 't
     \<Rightarrow> string + ('a sql_row_scheme, 'b sql_row_scheme) new_posts_info" where
  "get_new_posts_for_user queries conn user_id search_timestamp =
     (case get_posts_in_subscribed_threads queries conn user_id search_timestamp of
        Inl error \<Rightarrow> Inl error
      | Inr thread_posts0 \<Rightarrow>
          (case get_replies_to_subscribed_posts queries conn user_id search_timestamp of
             Inl error \<Rightarrow> Inl error
           | Inr post_replies0 \<Rightarrow>
               (let post_replies_ids = map row_id post_replies0;
                    thread_posts1 =
                      filter (\<lambda>thread_post. row_id thread_post \<notin> set post_replies_ids)
                        thread_posts0
                in Inr \<lparr>thread_posts = thread_posts1, post_replies = post_replies0\<rparr>)))"



section \<open>The two queries, from the specification\<close>

text \<open>
  The SQL text of the two queries is not among the sources. What they select is taken
  from the specification (sections 3, 4.4 and 8), over the data model of section 3. The
  method gives them one timestamp, \<^verbatim>\<open>search_timestamp\<close>, bound as one parameter of
  the statement: a number, not a pair.
\<close>

text \<open>
  \<^verbatim>\<open>Subscription\<close> of \<^verbatim>\<open>src/notifier/types.py\<close>: keys \<^verbatim>\<open>thread_id\<close>,
  \<^verbatim>\<open>post_id\<close> (\<open>None\<close>: the whole thread) and \<^verbatim>\<open>sub\<close> (\<open>1\<close> or \<open>-1\<close>).
\<close>

record subscription =
  sub_thread_id :: string
  sub_post_id :: "string option"
  sub :: int

text \<open>
  \<^verbatim>\<open>RawPost\<close> of \<^verbatim>\<open>src/notifier/types.py\<close>, the Post of the specification; its
  \<^verbatim>\<open>id\<close> is the column the digest reads.
\<close>

record post = sql_row +
  thread_id :: string
  parent_post_id :: "string option"
  posted_timestamp :: int
  title :: string
  snippet :: string
  user_id :: string
  username :: string

text \<open>\<^verbatim>\<open>CachedUserConfig\<close> of \<^verbatim>\<open>src/notifier/types.py\<close>, the keys the queries read.\<close>

record cached_user_config =
  config_user_id :: string
  frequency :: string
  last_notified_timestamp :: int
  manual_subs :: "subscription list"
  auto_subs :: "subscription list"

text \<open>
  Modelled from the spec: the cache that the queries read (section 3), which holds the
  posts, the user configurations, and for each thread whether a global override of its
  wiki mutes it; the specification leaves the matching of an override against a thread
  open (section 9), so its outcome is a field.
\<close>

record cache_db =
  posts :: "post list"
  user_configs :: "cached_user_config list"
  thread_muted :: "string \<Rightarrow> bool"

text \<open>Modelled from the spec: \<open>manual_subs \<union> auto_subs\<close> of the user (section 4.4, step 1).\<close>

definition subs_of :: "cache_db \<Rightarrow> string \<Rightarrow> subscription list" where
  "subs_of db uid =
     concat (map (\<lambda>c. manual_subs c @ auto_subs c)
       (filter (\<lambda>c. config_user_id c = uid) (user_configs db)))"

text \<open>
  Modelled from the spec: the user has a record with this thread, this post (or the
  whole thread) and this direction (section 3, Subscription).
\<close>

definition has_sub :: "subscription list \<Rightarrow> string \<Rightarrow> string option \<Rightarrow> int \<Rightarrow> bool" where
  "has_sub subs t p k =
     list_ex (\<lambda>s. sub_thread_id s = t \<and> sub_post_id s = p \<and> sub s = k) subs"

text \<open>
  Modelled from the spec: a thread the user is subscribed to, "minus active \<open>-1\<close>
  unsubscriptions" (section 4.4, step 1); the unsubscription overrides the matching
  subscription of equal precedence (section 3).
\<close>

definition thread_subscribed :: "subscription list \<Rightarrow> string \<Rightarrow> bool" where
  "thread_subscribed subs t = (has_sub subs t None 1 \<and> \<not> has_sub subs t None (- 1))"

text \<open>
  Modelled from the spec: an unsubscription for the pair of thread and post "removes
  matching notification eligibility even if a broader \<open>+1\<close> subscription (e.g.,
  thread-level) would otherwise include it" (section 3, invariants).
\<close>

definition post_unsubscribed :: "subscription list \<Rightarrow> string \<Rightarrow> string \<Rightarrow> bool" where
  "post_unsubscribed subs t p = has_sub subs t (Some p) (- 1)"

text \<open>
  Modelled from the spec: a post the user is subscribed to, by a subscription to the post
  itself or to its whole thread (in the first scenario of section 8 the reply to a post
  of a subscribed thread is a post reply), unless the user unsubscribed from the post.
\<close>

definition post_subscribed :: "subscription list \<Rightarrow> string \<Rightarrow> string \<Rightarrow> bool" where
  "post_subscribed subs t p =
     ((has_sub subs t (Some p) 1 \<or> thread_subscribed subs t) \<and> \<not> post_unsubscribed subs t p)"

text \<open>
  Modelled from the spec: "posted within the range" (section 4.4), of which the method
  has the lower end only: its one timestamp is documented as "made since the given
  timestamp", and the specification has a post at the lower end within the range.
\<close>

definition made_since :: "int \<Rightarrow> int \<Rightarrow> bool" where
  "made_since search_timestamp t = (search_timestamp \<le> t)"

text \<open>
  Modelled from the spec: query A, "all posts in threads the user is subscribed to (via
  \<open>manual_subs \<union> auto_subs\<close>, minus active \<open>-1\<close> unsubscriptions), posted within the
  range"; a post whose thread is muted by a global override is excluded (section 4.4).
\<close>

definition spec_posts_in_subscribed_threads ::
  "cache_db \<Rightarrow> string \<Rightarrow> int \<Rightarrow> string + post list" where
  "spec_posts_in_subscribed_threads db uid search_timestamp =
     Inr (filter (\<lambda>p. thread_subscribed (subs_of db uid) (thread_id p)
                     \<and> \<not> post_unsubscribed (subs_of db uid) (thread_id p) (row_id p)
                     \<and> made_since search_timestamp (posted_timestamp p)
                     \<and> \<not> thread_muted db (thread_id p))
            (posts db))"

text \<open>
  Modelled from the spec: query B, "all posts that are direct replies to a post the user
  is subscribed to, posted within the range" (section 4.4, step 2); as in query A, a post
  the user unsubscribed from and a post of a muted thread are excluded.
\<close>

definition spec_replies_to_subscribed_posts ::
  "cache_db \<Rightarrow> string \<Rightarrow> int \<Rightarrow> string + post list" where
  "spec_replies_to_subscribed_posts db uid search_timestamp =
     Inr (filter (\<lambda>p. (case parent_post_id p of
                        None \<Rightarrow> False
                      | Some parent \<Rightarrow> post_subscribed (subs_of db uid) (thread_id p) parent)
                     \<and> \<not> post_unsubscribed (subs_of db uid) (thread_id p) (row_id p)
                     \<and> made_since search_timestamp (posted_timestamp p)
                     \<and> \<not> thread_muted db (thread_id p))
            (posts db))"

text \<open>
  Modelled from the spec: the two entries of the table \<^verbatim>\<open>queries\<close> that the method
  uses, each with the one timestamp that the method binds.
\<close>

definition spec_queries :: "(cache_db, int, post, post) query_table" where
  "spec_queries =
     \<lparr>get_posts_in_subscribed_threads = spec_posts_in_subscribed_threads,
      get_replies_to_subscribed_posts = spec_replies_to_subscribed_posts\<rparr>"


section \<open>The scheduled tasks\<close>

text \<open>
  Source: \<^verbatim>\<open>src/notifier/tasks.py\<close>. The four task classes share the dataclass field
  \<^verbatim>\<open>database\<close> and differ in \<^verbatim>\<open>crontab\<close> and \<^verbatim>\<open>execute\<close>.
\<close>

datatype task_class = Hourly | Daily | Weekly | Monthly

record 'd scheduled_task =
  database :: 'd

fun crontab :: "task_class \<Rightarrow> string" where
  "crontab Hourly = ''0 * * * *''"
| "crontab Daily = ''0 0 * * *''"
| "crontab Weekly = ''0 0 * * 0''"
| "crontab Monthly = ''0 0 1 * *''"

text \<open>
  \<^verbatim>\<open>execute\<close> calls \<^verbatim>\<open>get_new_posts\<close> and \<^verbatim>\<open>get_users\<close> by their global names,
  which Python looks up when the call runs: a name that is bound to nothing raises
  \<^verbatim>\<open>NameError\<close>. A callable takes no argument, runs in a world \<open>'w\<close> and returns a
  value or raises.
\<close>

type_synonym ('w, 'r) py_globals = "string \<rightharpoonup> ('w \<Rightarrow> (py_exception + 'r) \<times> 'w)"

definition name_error :: "string \<Rightarrow> py_exception" where
  "name_error name =
     \<lparr>exc_class = ''NameError'',
      exc_bases = [''Exception'', ''BaseException'', ''object''],
      exc_text = ''name '' @ [CHR 0x27] @ name @ [CHR 0x27] @ '' is not defined''\<rparr>"

definition call_global ::
  "('w, 'r) py_globals \<Rightarrow> string \<Rightarrow> 'w \<Rightarrow> (py_exception + 'r) \<times> 'w" where
  "call_global globals name w =
     (case globals name of
        None \<Rightarrow> (Inl (name_error name), w)
      | Some callable \<Rightarrow> callable w)"

text \<open>
  \<^verbatim>\<open>users = get_users()\<close> binds a local that nothing reads; \<^verbatim>\<open>execute\<close> returns
  \<^verbatim>\<open>None\<close>.
\<close>

fun execute ::
  "task_class \<Rightarrow> 'd scheduled_task \<Rightarrow> ('w, 'r) py_globals \<Rightarrow> 'w
     \<Rightarrow> (py_exception + unit) \<times> 'w" where
  "execute Hourly self globals w =
     (case call_global globals ''get_new_posts'' w of
        (Inl error, w') \<Rightarrow> (Inl error, w')
      | (Inr _, w') \<Rightarrow>
          (case call_global globals ''get_users'' w' of
             (Inl error, w'') \<Rightarrow> (Inl error, w'')
           | (Inr users, w'') \<Rightarrow> (Inr (), w'')))"
| "execute Daily self globals w =
     (case call_global globals ''get_users'' w of
        (Inl error, w') \<Rightarrow> (Inl error, w')
      | (Inr users, w') \<Rightarrow> (Inr (), w'))"
| "execute Weekly self globals w =
     (case call_global globals ''get_users'' w of
        (Inl error, w') \<Rightarrow> (Inl error, w')
      | (Inr users, w') \<Rightarrow> (Inr (), w'))"
| "execute Monthly self globals w =
     (case call_global globals ''get_users'' w of
        (Inl error, w') \<Rightarrow> (Inl error, w')
      | (Inr users, w') \<Rightarrow> (Inr (), w'))"

text \<open>
  A world that is the list of the names called so far, and globals in which every name is
  bound to a callable that records its own name and returns \<open>result\<close>: the calls that
  \<^verbatim>\<open>execute\<close> itself makes can be read off the world.
\<close>

definition recording_globals :: "'r \<Rightarrow> (string list, 'r) py_globals" where
  "recording_globals result = (\<lambda>name. Some (\<lambda>calls. (Inr result, calls @ [name])))"

text \<open>The globals of \<^verbatim>\<open>tasks.py\<close> as it stands: neither name is defined or imported.\<close>

definition module_globals :: "('w, 'r) py_globals" where
  "module_globals = Map.empty"


section \<open>Example inputs\<close>

text \<open>
  Python values for the examples: \<^verbatim>\<open>None\<close>, strings and the float
  \<^verbatim>\<open>float('nan')\<close>, with their \<^verbatim>\<open>!=\<close>, which is true of the float and itself.
\<close>

datatype py_value = PyNone | PyStr string | PyNaN

definition py_ne :: "py_value \<Rightarrow> py_value \<Rightarrow> bool" where
  "py_ne a b = (a \<noteq> b \<or> a = PyNaN)"

text \<open>
  A cache that holds the value stored last; a getter that fails with a connection error,
  as a function and as a \<^verbatim>\<open>functools.partial\<close> object, which has no
  \<^verbatim>\<open>__name__\<close>; and a getter that returns a given value.
\<close>

definition connection_error :: py_exception where
  "connection_error =
     \<lparr>exc_class = ''ConnectionError'',
      exc_bases = [''OSError'', ''Exception'', ''BaseException'', ''object''],
      exc_text = ''remote unreachable''\<rparr>"

definition failing_get :: "(py_value list, py_value) getter" where
  "failing_get =
     \<lparr>getter_name = Some ''get_user_config'',
      getter_call = (\<lambda>w. (Inl connection_error, w))\<rparr>"

definition partial_failing_get :: "(py_value list, py_value) getter" where
  "partial_failing_get =
     \<lparr>getter_name = None,
      getter_call = (\<lambda>w. (Inl connection_error, w))\<rparr>"

definition returning_get :: "py_value \<Rightarrow> (py_value list, py_value) getter" where
  "returning_get val =
     \<lparr>getter_name = Some ''get_user_config'',
      getter_call = (\<lambda>w. (Inr val, w))\<rparr>"

definition replacing_store :: "(py_value list, py_value) storer" where
  "replacing_store val w = (Inr (), [val])"

text \<open>
  A query directory with a subdirectory, a script, a single statement and a file that
  does not decode; the same directory after an edit; and a driver as \<^verbatim>\<open>__init__\<close>
  leaves it, which calls \<^verbatim>\<open>clear_query_file_cache\<close>.
\<close>

definition example_dir :: "dir_entry list" where
  "example_dir =
     [\<lparr>entry_name = ''archive'', entry_content = Directory\<rparr>,
      \<lparr>entry_name = ''create_tables.script.sql'',
       entry_content =
         TextFile ''CREATE TABLE post (id TEXT); CREATE TABLE thread (id TEXT);''\<rparr>,
      \<lparr>entry_name = ''get_user_configs.sql'',
       entry_content = TextFile ''SELECT * FROM user_config WHERE frequency = :frequency''\<rparr>,
      \<lparr>entry_name = ''broken.sql'', entry_content = UndecodableFile\<rparr>]"

definition edited_dir :: "dir_entry list" where
  "edited_dir =
     [\<lparr>entry_name = ''get_user_configs.sql'',
       entry_content = TextFile ''SELECT user_id FROM user_config''\<rparr>]"

definition new_driver :: "dir_entry list option \<Rightarrow> driver_state" where
  "new_driver dir =
     clear_query_file_cache \<lparr>query_cache = Map.empty, queries_dir = dir, scans = 0, opened = []\<rparr>"

text \<open>
  A query table that returns fixed rows; and the scenario of section 8 of the
  specification: user \<open>U\<close>, thread \<open>T\<close> with the post \<open>P1\<close> (time 100) and its reply
  \<open>P2\<close> (time 150), a post \<open>P4\<close> of another thread, and a later post \<open>P3\<close> of
  \<open>T\<close> (time 250).
\<close>

definition fixed_queries ::
  "sql_row list \<Rightarrow> sql_row list \<Rightarrow> (unit, int, sql_row, sql_row) query_table" where
  "fixed_queries in_threads replies =
     \<lparr>get_posts_in_subscribed_threads = (\<lambda>conn user_id search_timestamp. Inr in_threads),
      get_replies_to_subscribed_posts = (\<lambda>conn user_id search_timestamp. Inr replies)\<rparr>"

definition mk_post :: "string \<Rightarrow> string \<Rightarrow> string option \<Rightarrow> int \<Rightarrow> post" where
  "mk_post i t parent time =
     \<lparr>row_id = i, thread_id = t, parent_post_id = parent, posted_timestamp = time,
      title = ''title'', snippet = ''snippet'', user_id = ''author'', username = ''Author''\<rparr>"

definition scenario_posts :: "post list" where
  "scenario_posts =
     [mk_post ''P1'' ''T'' None 100,
      mk_post ''P2'' ''T'' (Some ''P1'') 150,
      mk_post ''P4'' ''T2'' None 120]"

definition late_post :: post where
  "late_post = mk_post ''P3'' ''T'' None 250"

definition scenario_db :: "post list \<Rightarrow> subscription list \<Rightarrow> (string \<Rightarrow> bool) \<Rightarrow> cache_db" where
  "scenario_db stored subs muted =
     \<lparr>posts = stored,
      user_configs =
        [\<lparr>config_user_id = ''U'', frequency = ''hourly'', last_notified_timestamp = 0,
          manual_subs = subs, auto_subs = []\<rparr>],
      thread_muted = muted\<rparr>"

definition subscribe_thread :: "string \<Rightarrow> subscription" where
  "subscribe_thread t = \<lparr>sub_thread_id = t, sub_post_id = None, sub = 1\<rparr>"

definition unsubscribe_thread :: "string \<Rightarrow> subscription" where
  "unsubscribe_thread t = \<lparr>sub_thread_id = t, sub_post_id = None, sub = - 1\<rparr>"

definition unsubscribe_post :: "string \<Rightarrow> string \<Rightarrow> subscription" where
  "unsubscribe_post t p = \<lparr>sub_thread_id = t, sub_post_id = Some p, sub = - 1\<rparr>"


section \<open>Properties of \<open>try_cache\<close>\<close>

text \<open>
  The caught branch, case by case: with a getter that has a name and a skip value that
  \<^verbatim>\<open>!=\<close> does not tell from itself, nothing is stored and the call returns; a getter
  without a name makes the handler raise; a skip value that \<^verbatim>\<open>!=\<close> tells from
  itself is stored.
\<close>

lemma py_isinstance_own_class:
  "exc_class error \<in> set classes \<Longrightarrow> py_isinstance error classes"
  by (auto simp: py_isinstance_def list_ex_iff)

lemma py_isinstance_no_classes: "\<not> py_isinstance error (catch_classes None)"
  by (simp add: py_isinstance_def catch_classes_def)


lemma try_cache_uncaught_error_propagates:
  assumes "getter_call get w = (Inl error, w')"
    and "\<not> py_isinstance error (catch_classes catch)"
  shows "try_cache ne get store do_not_store catch w
           = \<lparr>raised = Some error, world = w', printed = [], store_calls = []\<rparr>"
  using assms by (simp add: try_cache_def)

lemma try_cache_caught_error_named_getter:
  assumes "getter_call get w = (Inl error, w')"
    and "py_isinstance error (catch_classes catch)"
    and "getter_name get = Some name"
    and "\<not> ne do_not_store do_not_store"
  shows "try_cache ne get store do_not_store catch w
           = \<lparr>raised = None, world = w',
              printed = [name @ '' failed; will use value from cache'',
                         ''Failure: '' @ exc_text error],
              store_calls = []\<rparr>"
  using assms by (simp add: try_cache_def store_unless_skipped_def)

lemma try_cache_caught_error_nameless_getter:
  assumes "getter_call get w = (Inl error, w')"
    and "py_isinstance error (catch_classes catch)"
    and "getter_name get = None"
  shows "try_cache ne get store do_not_store catch w
           = \<lparr>raised = Some (attribute_error ''__name__''), world = w', printed = [],
              store_calls = []\<rparr>"
  using assms by (simp add: try_cache_def)

lemma try_cache_caught_error_irreflexive_skip:
  assumes "getter_call get w = (Inl error, w')"
    and "py_isinstance error (catch_classes catch)"
    and "getter_name get = Some name"
    and "ne do_not_store do_not_store"
  shows "store_calls (try_cache ne get store do_not_store catch w) = [do_not_store]
       \<and> world (try_cache ne get store do_not_store catch w) = snd (store do_not_store w')"
  using assms
  by (simp add: try_cache_def store_unless_skipped_def split: prod.splits sum.splits)

text \<open>
  For values whose \<^verbatim>\<open>!=\<close> is the negation of equality: a returned value that is not
  the skip value is stored once, and a returned skip value is not stored.
\<close>

lemma try_cache_plain_inequality:
  assumes "getter_call get w = (Inr val, w')"
  shows "val \<noteq> do_not_store
           \<Longrightarrow> store_calls (try_cache (\<lambda>a b. a \<noteq> b) get store do_not_store catch w) = [val]
             \<and> world (try_cache (\<lambda>a b. a \<noteq> b) get store do_not_store catch w)
                 = snd (store val w')"
    and "val = do_not_store
           \<Longrightarrow> try_cache (\<lambda>a b. a \<noteq> b) get store do_not_store catch w
                 = \<lparr>raised = None, world = w', printed = [], store_calls = []\<rparr>"
  using assms
  by (simp_all add: try_cache_def store_unless_skipped_def split: prod.splits sum.splits)

text \<open>
  Claim C3 fails on the code. The docstring says "If an exception is caught, the store is
  not called", and the code keeps to it only while \<^verbatim>\<open>do_not_store != do_not_store\<close>
  is false: with \<^verbatim>\<open>do_not_store = float('nan')\<close> and a getter that raises a caught
  exception, \<^verbatim>\<open>store\<close> is called with the skip value and replaces what the cache
  held. And with a \<^verbatim>\<open>functools.partial\<close> getter that raises a caught exception, an
  \<^verbatim>\<open>AttributeError\<close> leaves \<^verbatim>\<open>try_cache\<close>.
\<close>

theorem try_cache_nan_skip_value_stored:
  "try_cache py_ne failing_get replacing_store PyNaN (Some [''OSError'']) [PyStr ''old'']
     = \<lparr>raised = None, world = [PyNaN],
        printed = [''get_user_config failed; will use value from cache'',
                   ''Failure: remote unreachable''],
        store_calls = [PyNaN]\<rparr>
   \<and> try_cache py_ne partial_failing_get replacing_store PyNone (Some [''OSError''])
       [PyStr ''old'']
     = \<lparr>raised = Some (attribute_error ''__name__''), world = [PyStr ''old''],
        printed = [], store_calls = []\<rparr>"
  by (simp add: try_cache_def store_unless_skipped_def failing_get_def
      partial_failing_get_def connection_error_def py_isinstance_def catch_classes_def
      py_ne_def replacing_store_def)

text \<open>
  Claim C4. When \<^verbatim>\<open>get\<close> returns a value for which \<^verbatim>\<open>value != do_not_store\<close>
  holds, \<^verbatim>\<open>store\<close> is called exactly once, with that value; the world afterwards is
  the one this call of \<^verbatim>\<open>store\<close> leaves, and only an exception of \<^verbatim>\<open>store\<close>
  itself leaves \<^verbatim>\<open>try_cache\<close>.
\<close>

theorem try_cache_stores_fresh_value:
  assumes "getter_call get w = (Inr val, w')"
    and "ne val do_not_store"
  shows "store_calls (try_cache ne get store do_not_store catch w) = [val]
       \<and> world (try_cache ne get store do_not_store catch w) = snd (store val w')
       \<and> raised (try_cache ne get store do_not_store catch w)
           = (case fst (store val w') of Inl error \<Rightarrow> Some error | Inr _ \<Rightarrow> None)"
  using assms
  by (simp add: try_cache_def store_unless_skipped_def split: prod.splits sum.splits)

theorem try_cache_stores_fresh_value_witness:
  "store_calls (try_cache py_ne (returning_get (PyStr ''new'')) replacing_store PyNone
      (Some [''OSError'']) [PyStr ''old'']) = [PyStr ''new'']
   \<and> world (try_cache py_ne (returning_get (PyStr ''new'')) replacing_store PyNone
      (Some [''OSError'']) [PyStr ''old'']) = [PyStr ''new'']
   \<and> raised (try_cache py_ne (returning_get (PyStr ''new'')) replacing_store PyNone
      (Some [''OSError'']) [PyStr ''old'']) = None"
  using try_cache_stores_fresh_value
    [of "returning_get (PyStr ''new'')" "[PyStr ''old'']" "PyStr ''new''" "[PyStr ''old'']"
        py_ne PyNone replacing_store "Some [''OSError'']"]
  by (simp add: returning_get_def replacing_store_def py_ne_def)





section \<open>Properties of the query file cache\<close>

lemma split_on_not_empty: "split_on sep s \<noteq> []"
  by (induction s) (auto split: list.splits)

text \<open>The name up to its first dot: \<^verbatim>\<open>create_tables.script.sql\<close> gives \<^verbatim>\<open>create_tables\<close>.\<close>

lemma name_before_dot_takeWhile:
  "name_before_dot name = takeWhile (\<lambda>c. c \<noteq> CHR ''.'') name"
  unfolding name_before_dot_def
  by (induction name) (auto split: list.splits simp: split_on_not_empty)

lemma find_Some_member: "List.find P xs = Some x \<Longrightarrow> x \<in> set xs \<and> P x"
  by (induction xs) (auto split: if_splits)

lemma read_query_file_returns_iff:
  "fst (read_query_file query_name self) = Inr ()
     \<longleftrightarrow> (\<exists>entries query_path text.
           queries_dir self = Some entries
           \<and> List.find (\<lambda>path. name_before_dot (entry_name path) = query_name) entries
               = Some query_path
           \<and> entry_content query_path = TextFile text)"
  by (auto simp: read_query_file_def Let_def split: option.splits file_content.splits)

lemma read_query_file_keeps_cache_on_error:
  "fst (read_query_file query_name self) = Inl error
     \<Longrightarrow> query_cache (snd (read_query_file query_name self)) = query_cache self"
  by (auto simp: read_query_file_def Let_def split: option.splits file_content.splits)

lemma read_query_file_error_cases:
  assumes "fst (read_query_file query_name self) = Inl error"
  shows "error = value_error (''Query '' @ query_name @ '' does not exist'')
       \<or> error = os_error ''FileNotFoundError'' ''queries''
       \<or> (\<exists>name. error = os_error ''IsADirectoryError'' name)
       \<or> (\<exists>name. error = os_error ''PermissionError'' name)
       \<or> (\<exists>name. error = unicode_decode_error name)"
  using assms
  by (auto simp: read_query_file_def Let_def split: option.splits file_content.splits)

lemma exc_class_simps:
  "exc_class (value_error message) = ''ValueError''"
  "exc_class (os_error subclass name) = subclass"
  "exc_class (unicode_decode_error name) = ''UnicodeDecodeError''"
  by (simp_all add: value_error_def os_error_def unicode_decode_error_def)

lemma example_dir_nothing:
  "List.find (\<lambda>path. name_before_dot (entry_name path) = ''nothing'') example_dir = None"
  by (simp add: example_dir_def name_before_dot_takeWhile)

lemma example_dir_create_tables:
  "List.find (\<lambda>path. name_before_dot (entry_name path) = ''create_tables'') example_dir
     = Some \<lparr>entry_name = ''create_tables.script.sql'',
       entry_content =
         TextFile ''CREATE TABLE post (id TEXT); CREATE TABLE thread (id TEXT);''\<rparr>"
  by (simp add: example_dir_def name_before_dot_takeWhile)

lemma example_dir_get_user_configs:
  "List.find (\<lambda>path. name_before_dot (entry_name path) = ''get_user_configs'') example_dir
     = Some \<lparr>entry_name = ''get_user_configs.sql'',
       entry_content = TextFile ''SELECT * FROM user_config WHERE frequency = :frequency''\<rparr>"
  by (simp add: example_dir_def name_before_dot_takeWhile)

lemma example_dir_broken:
  "List.find (\<lambda>path. name_before_dot (entry_name path) = ''broken'') example_dir
     = Some \<lparr>entry_name = ''broken.sql'', entry_content = UndecodableFile\<rparr>"
  by (simp add: example_dir_def name_before_dot_takeWhile)

lemma edited_dir_get_user_configs:
  "List.find (\<lambda>path. name_before_dot (entry_name path) = ''get_user_configs'') edited_dir
     = Some \<lparr>entry_name = ''get_user_configs.sql'',
       entry_content = TextFile ''SELECT user_id FROM user_config''\<rparr>"
  by (simp add: edited_dir_def name_before_dot_takeWhile)

lemma first_load:
  "cache_named_query ''get_user_configs'' (new_driver (Some example_dir))
     = (Inr (),
        \<lparr>query_cache = [''get_user_configs'' \<mapsto>
            \<lparr>script = False,
             query = ''SELECT * FROM user_config WHERE frequency = :frequency''\<rparr>],
         queries_dir = Some example_dir, scans = 1, opened = [''get_user_configs.sql'']\<rparr>)"
  by (simp add: cache_named_query_def read_query_file_def new_driver_def
      clear_query_file_cache_def example_dir_get_user_configs endswith_def)

text \<open>
  Claim C6, as the code has it. When the query directory can be listed,
  \<^verbatim>\<open>read_query_file\<close> raises the \<^verbatim>\<open>ValueError\<close> "Query ... does not exist" (the
  QueryNotFound of the specification) exactly when no entry of the directory has a name
  whose part before the first dot is the requested name. Every exception of class
  \<^verbatim>\<open>ValueError\<close> that it raises is that one. Whatever it raises, \<^verbatim>\<open>query_cache\<close>
  is as it was.
\<close>

theorem read_query_file_not_found_iff:
  "(\<forall>entries. queries_dir self = Some entries \<longrightarrow>
      ((fst (read_query_file query_name self)
          = Inl (value_error (''Query '' @ query_name @ '' does not exist'')))
        \<longleftrightarrow> \<not> (\<exists>path \<in> set entries. name_before_dot (entry_name path) = query_name)))
   \<and> (\<forall>error. fst (read_query_file query_name self) = Inl error
         \<and> exc_class error = ''ValueError''
         \<longrightarrow> error = value_error (''Query '' @ query_name @ '' does not exist''))
   \<and> (\<forall>error. fst (read_query_file query_name self) = Inl error
         \<longrightarrow> query_cache (snd (read_query_file query_name self)) = query_cache self)"
proof (intro conjI allI impI)
  fix entries
  assume listed: "queries_dir self = Some entries"
  show "(fst (read_query_file query_name self)
          = Inl (value_error (''Query '' @ query_name @ '' does not exist'')))
        \<longleftrightarrow> \<not> (\<exists>path \<in> set entries. name_before_dot (entry_name path) = query_name)"
  proof (cases "List.find (\<lambda>path. name_before_dot (entry_name path) = query_name) entries")
    case None
    have "fst (read_query_file query_name self)
          = Inl (value_error (''Query '' @ query_name @ '' does not exist''))"
      using listed None by (simp add: read_query_file_def Let_def)
    moreover have "\<not> (\<exists>path \<in> set entries. name_before_dot (entry_name path) = query_name)"
      using None by (simp add: find_None_iff)
    ultimately show ?thesis by simp
  next
    case (Some query_path)
    from find_Some_member [OF Some]
    have "\<exists>path \<in> set entries. name_before_dot (entry_name path) = query_name"
      by blast
    moreover have "fst (read_query_file query_name self)
          \<noteq> Inl (value_error (''Query '' @ query_name @ '' does not exist''))"
    proof (cases "entry_content query_path")
      case (TextFile contents)
      with listed Some show ?thesis by (simp add: read_query_file_def Let_def)
    next
      case UndecodableFile
      with listed Some have "fst (read_query_file query_name self)
          = Inl (unicode_decode_error (entry_name query_path))"
        by (simp add: read_query_file_def Let_def)
      then show ?thesis
        by (simp add: value_error_def unicode_decode_error_def)
    next
      case Directory
      with listed Some have "fst (read_query_file query_name self)
          = Inl (os_error ''IsADirectoryError'' (entry_name query_path))"
        by (simp add: read_query_file_def Let_def)
      then show ?thesis
        by (simp add: value_error_def os_error_def)
    next
      case Forbidden
      with listed Some have "fst (read_query_file query_name self)
          = Inl (os_error ''PermissionError'' (entry_name query_path))"
        by (simp add: read_query_file_def Let_def)
      then show ?thesis
        by (simp add: value_error_def os_error_def)
    qed
    ultimately show ?thesis by simp
  qed
next
  fix error
  assume "fst (read_query_file query_name self) = Inl error \<and> exc_class error = ''ValueError''"
  then have raised: "fst (read_query_file query_name self) = Inl error"
    and cls: "exc_class error = ''ValueError''" by simp_all
  from read_query_file_error_cases [OF raised] cls
  show "error = value_error (''Query '' @ query_name @ '' does not exist'')"
    by (elim disjE exE) (simp_all add: exc_class_simps)
next
  fix error
  assume "fst (read_query_file query_name self) = Inl error"
  then show "query_cache (snd (read_query_file query_name self)) = query_cache self"
    by (rule read_query_file_keeps_cache_on_error)
qed

theorem read_query_file_not_found_iff_witness:
  "fst (read_query_file ''nothing'' (new_driver (Some example_dir)))
     = Inl (value_error ''Query nothing does not exist'')
   \<and> \<not> (\<exists>path \<in> set example_dir. name_before_dot (entry_name path) = ''nothing'')
   \<and> fst (read_query_file ''archive'' (new_driver (Some example_dir)))
       \<noteq> Inl (value_error ''Query archive does not exist'')
   \<and> query_cache (snd (read_query_file ''nothing'' (new_driver (Some example_dir))))
       = query_cache (new_driver (Some example_dir))"
proof -
  have listed: "queries_dir (new_driver (Some example_dir)) = Some example_dir"
    by (simp add: new_driver_def clear_query_file_cache_def)
  have absent: "\<not> (\<exists>path \<in> set example_dir. name_before_dot (entry_name path) = ''nothing'')"
    using example_dir_nothing by (simp add: find_None_iff)
  have present: "\<exists>path \<in> set example_dir. name_before_dot (entry_name path) = ''archive''"
    by (simp add: example_dir_def name_before_dot_takeWhile)
  note for_nothing = read_query_file_not_found_iff [of "new_driver (Some example_dir)" "''nothing''"]
  note for_archive = read_query_file_not_found_iff [of "new_driver (Some example_dir)" "''archive''"]
  have failed: "fst (read_query_file ''nothing'' (new_driver (Some example_dir)))
     = Inl (value_error ''Query nothing does not exist'')"
    using for_nothing [THEN conjunct1, rule_format, OF listed, THEN iffD2, OF absent]
    by simp
  have other: "fst (read_query_file ''archive'' (new_driver (Some example_dir)))
       \<noteq> Inl (value_error ''Query archive does not exist'')"
  proof
    assume "fst (read_query_file ''archive'' (new_driver (Some example_dir)))
       = Inl (value_error ''Query archive does not exist'')"
    then have "fst (read_query_file ''archive'' (new_driver (Some example_dir)))
       = Inl (value_error (''Query '' @ ''archive'' @ '' does not exist''))"
      by simp
    from for_archive [THEN conjunct1, rule_format, OF listed, THEN iffD1, OF this] present
    show False by blast
  qed
  from for_nothing [THEN conjunct2, THEN conjunct2, rule_format, OF failed]
  have kept: "query_cache (snd (read_query_file ''nothing'' (new_driver (Some example_dir))))
       = query_cache (new_driver (Some example_dir))" .
  from failed absent other kept show ?thesis by blast
qed

text \<open>
  Claim C6 as stated fails in both directions. With no query directory nothing matches,
  and the exception is \<^verbatim>\<open>FileNotFoundError\<close>, which is no \<^verbatim>\<open>ValueError\<close>. With a
  matching file that does not decode, the exception is \<^verbatim>\<open>UnicodeDecodeError\<close>,
  which is a \<^verbatim>\<open>ValueError\<close>.
\<close>

theorem read_query_file_other_errors_counterexample:
  "fst (read_query_file ''create_tables'' (new_driver None))
     = Inl (os_error ''FileNotFoundError'' ''queries'')
   \<and> \<not> py_isinstance (os_error ''FileNotFoundError'' ''queries'') [''ValueError'']
   \<and> fst (read_query_file ''broken'' (new_driver (Some example_dir)))
       = Inl (unicode_decode_error ''broken.sql'')
   \<and> py_isinstance (unicode_decode_error ''broken.sql'') [''ValueError'']
   \<and> name_before_dot ''broken.sql'' = ''broken''"
proof -
  have missing: "fst (read_query_file ''create_tables'' (new_driver None))
     = Inl (os_error ''FileNotFoundError'' ''queries'')"
    by (simp add: read_query_file_def new_driver_def clear_query_file_cache_def)
  have undecodable: "fst (read_query_file ''broken'' (new_driver (Some example_dir)))
       = Inl (unicode_decode_error ''broken.sql'')"
    by (simp add: read_query_file_def new_driver_def clear_query_file_cache_def
        example_dir_broken)
  have classes: "\<not> py_isinstance (os_error ''FileNotFoundError'' ''queries'') [''ValueError'']
      \<and> py_isinstance (unicode_decode_error ''broken.sql'') [''ValueError'']"
    by (simp add: os_error_def unicode_decode_error_def py_isinstance_def)
  have name: "name_before_dot ''broken.sql'' = ''broken''"
    by (simp add: name_before_dot_takeWhile)
  from missing undecodable classes name show ?thesis by simp
qed

text \<open>
  Claim C8. \<^verbatim>\<open>read_query_file\<close> takes the first entry of the query directory whose
  name, cut at its first dot, is the requested name. When that entry is a file that
  decodes, the call returns and the cached definition has \<^verbatim>\<open>script\<close> true exactly
  when the name of that entry ends in \<^verbatim>\<open>.script.sql\<close>, and \<^verbatim>\<open>query\<close> equal to all
  that the file holds.
\<close>

theorem read_query_file_caches_first_match:
  assumes "queries_dir self = Some entries"
    and "List.find (\<lambda>path. name_before_dot (entry_name path) = query_name) entries
             = Some query_path"
    and "entry_content query_path = TextFile text"
  shows "fst (read_query_file query_name self) = Inr ()
       \<and> query_cache (snd (read_query_file query_name self)) query_name
           = Some \<lparr>script = endswith (entry_name query_path) ''.script.sql'', query = text\<rparr>
       \<and> query_path \<in> set entries
       \<and> takeWhile (\<lambda>c. c \<noteq> CHR ''.'') (entry_name query_path) = query_name"
  using assms find_Some_member [OF assms(2)]
  by (simp add: read_query_file_def Let_def name_before_dot_takeWhile)

theorem read_query_file_caches_first_match_witness:
  "fst (read_query_file ''create_tables'' (new_driver (Some example_dir))) = Inr ()
   \<and> query_cache (snd (read_query_file ''create_tables'' (new_driver (Some example_dir))))
        ''create_tables''
       = Some \<lparr>script = True,
          query = ''CREATE TABLE post (id TEXT); CREATE TABLE thread (id TEXT);''\<rparr>"
  using read_query_file_caches_first_match
    [of "new_driver (Some example_dir)" example_dir "''create_tables''"
        "\<lparr>entry_name = ''create_tables.script.sql'',
          entry_content =
            TextFile ''CREATE TABLE post (id TEXT); CREATE TABLE thread (id TEXT);''\<rparr>"
        "''CREATE TABLE post (id TEXT); CREATE TABLE thread (id TEXT);''"]
    example_dir_create_tables
  by (simp add: new_driver_def clear_query_file_cache_def endswith_def)

text \<open>
  Claim C5. After a call of \<^verbatim>\<open>cache_named_query\<close> that returned, a second call for
  the same name, with no \<^verbatim>\<open>clear_query_file_cache\<close> in between, changes nothing,
  whatever the directory holds by then and even when it is gone: the definition in the
  cache is the same, and the directory is neither listed nor a file opened. After
  \<^verbatim>\<open>clear_query_file_cache\<close> the next call lists the directory again, opens the
  matching file and caches the definition that the edited directory gives.
\<close>

theorem cache_named_query_served_from_cache:
  assumes "cache_named_query query_name self = (Inr (), cached)"
    and "List.find (\<lambda>path. name_before_dot (entry_name path) = query_name) edited
             = Some query_path"
    and "entry_content query_path = TextFile text"
  shows "cache_named_query query_name (cached\<lparr>queries_dir := any_dir\<rparr>)
           = (Inr (), cached\<lparr>queries_dir := any_dir\<rparr>)
       \<and> (\<exists>definition. query_cache cached query_name = Some definition)
       \<and> fst (cache_named_query query_name
                (clear_query_file_cache (cached\<lparr>queries_dir := Some edited\<rparr>))) = Inr ()
       \<and> query_cache (snd (cache_named_query query_name
                (clear_query_file_cache (cached\<lparr>queries_dir := Some edited\<rparr>)))) query_name
           = Some \<lparr>script = endswith (entry_name query_path) ''.script.sql'', query = text\<rparr>
       \<and> scans (snd (cache_named_query query_name
                (clear_query_file_cache (cached\<lparr>queries_dir := Some edited\<rparr>))))
           = Suc (scans cached)
       \<and> opened (snd (cache_named_query query_name
                (clear_query_file_cache (cached\<lparr>queries_dir := Some edited\<rparr>))))
           = opened cached @ [entry_name query_path]"
proof -
  have in_cache: "query_name \<in> dom (query_cache cached)"
    using assms(1)
    by (auto simp: cache_named_query_def read_query_file_def Let_def
        split: if_splits option.splits file_content.splits)
  have second: "cache_named_query query_name (cached\<lparr>queries_dir := any_dir\<rparr>)
           = (Inr (), cached\<lparr>queries_dir := any_dir\<rparr>)"
    using in_cache by (simp add: cache_named_query_def)
  have after_clear: "cache_named_query query_name
                (clear_query_file_cache (cached\<lparr>queries_dir := Some edited\<rparr>))
         = read_query_file query_name
             (clear_query_file_cache (cached\<lparr>queries_dir := Some edited\<rparr>))"
    by (simp add: cache_named_query_def clear_query_file_cache_def)
  show ?thesis
    using in_cache second assms(2,3) unfolding after_clear
    by (auto simp: read_query_file_def Let_def clear_query_file_cache_def)
qed

theorem cache_named_query_served_from_cache_witness:
  "(let cached = snd (cache_named_query ''get_user_configs'' (new_driver (Some example_dir))) in
     cache_named_query ''get_user_configs'' (cached\<lparr>queries_dir := Some edited_dir\<rparr>)
       = (Inr (), cached\<lparr>queries_dir := Some edited_dir\<rparr>)
     \<and> cache_named_query ''get_user_configs'' (cached\<lparr>queries_dir := None\<rparr>)
       = (Inr (), cached\<lparr>queries_dir := None\<rparr>)
     \<and> query_cache cached ''get_user_configs''
         = Some \<lparr>script = False,
                 query = ''SELECT * FROM user_config WHERE frequency = :frequency''\<rparr>
     \<and> query_cache (snd (cache_named_query ''get_user_configs''
                (clear_query_file_cache (cached\<lparr>queries_dir := Some edited_dir\<rparr>))))
          ''get_user_configs''
         = Some \<lparr>script = False, query = ''SELECT user_id FROM user_config''\<rparr>
     \<and> scans (snd (cache_named_query ''get_user_configs''
                (clear_query_file_cache (cached\<lparr>queries_dir := Some edited_dir\<rparr>)))) = 2)"
  using cache_named_query_served_from_cache
    [OF first_load edited_dir_get_user_configs,
     of "''SELECT user_id FROM user_config''" "Some edited_dir"]
    cache_named_query_served_from_cache
    [OF first_load edited_dir_get_user_configs,
     of "''SELECT user_id FROM user_config''" None]
  by (simp add: first_load endswith_def)


section \<open>Properties of \<open>get_new_posts_for_user\<close>\<close>

text \<open>
  Whatever the two queries are: when the method returns, both queries returned for this
  user and this timestamp, the replies are the rows of the second query and the thread
  posts are rows of the first.
\<close>

lemma digest_rows_from_queries:
  assumes "get_new_posts_for_user queries conn uid search_timestamp = Inr info"
  shows "\<exists>in_threads.
           get_posts_in_subscribed_threads queries conn uid search_timestamp = Inr in_threads
         \<and> get_replies_to_subscribed_posts queries conn uid search_timestamp
             = Inr (post_replies info)
         \<and> set (thread_posts info) \<subseteq> set in_threads"
  using assms
  by (auto simp: get_new_posts_for_user_def Let_def split: sum.splits)

lemma digest_query_error:
  "get_posts_in_subscribed_threads queries conn uid search_timestamp = Inl error
     \<Longrightarrow> get_new_posts_for_user queries conn uid search_timestamp = Inl error"
  by (simp add: get_new_posts_for_user_def)

text \<open>
  Claim C1. When both queries return rows, the method returns a payload whose two lists
  share no \<^verbatim>\<open>id\<close>: an \<^verbatim>\<open>id\<close> that both queries returned is in \<^verbatim>\<open>post_replies\<close>
  and not in \<^verbatim>\<open>thread_posts\<close>. The replies are all kept, and a thread post is dropped
  only when its \<^verbatim>\<open>id\<close> is among the replies.
\<close>

theorem get_new_posts_for_user_disjoint:
  assumes "get_posts_in_subscribed_threads queries conn uid search_timestamp = Inr in_threads"
    and "get_replies_to_subscribed_posts queries conn uid search_timestamp = Inr replies"
  shows "\<exists>info. get_new_posts_for_user queries conn uid search_timestamp = Inr info
       \<and> post_replies info = replies
       \<and> row_id ` set (thread_posts info) \<inter> row_id ` set (post_replies info) = {}
       \<and> (\<forall>i \<in> row_id ` set in_threads \<inter> row_id ` set replies.
             i \<in> row_id ` set (post_replies info) \<and> i \<notin> row_id ` set (thread_posts info))
       \<and> (\<forall>p \<in> set in_threads.
             row_id p \<notin> row_id ` set replies \<longrightarrow> p \<in> set (thread_posts info))
       \<and> set (thread_posts info) \<subseteq> set in_threads"
  using assms by (auto simp: get_new_posts_for_user_def Let_def)

theorem get_new_posts_for_user_disjoint_witness:
  "\<exists>info. get_new_posts_for_user
       (fixed_queries [\<lparr>row_id = ''p1''\<rparr>, \<lparr>row_id = ''p2''\<rparr>] [\<lparr>row_id = ''p2''\<rparr>]) () ''U'' 0
       = Inr info
     \<and> post_replies info = [\<lparr>row_id = ''p2''\<rparr>]
     \<and> ''p2'' \<in> row_id ` set (post_replies info)
     \<and> ''p2'' \<notin> row_id ` set (thread_posts info)
     \<and> \<lparr>row_id = ''p1''\<rparr> \<in> set (thread_posts info)"
  using get_new_posts_for_user_disjoint
    [of "fixed_queries [\<lparr>row_id = ''p1''\<rparr>, \<lparr>row_id = ''p2''\<rparr>] [\<lparr>row_id = ''p2''\<rparr>]"
        "()" "''U''" 0 "[\<lparr>row_id = ''p1''\<rparr>, \<lparr>row_id = ''p2''\<rparr>]" "[\<lparr>row_id = ''p2''\<rparr>]"]
  by (auto simp: fixed_queries_def)


section \<open>Properties of the digest over the queries of the specification\<close>

lemma spec_digest:
  "get_new_posts_for_user spec_queries db uid search_timestamp = Inr info
     \<longleftrightarrow> (\<exists>in_threads replies.
           spec_posts_in_subscribed_threads db uid search_timestamp = Inr in_threads
         \<and> spec_replies_to_subscribed_posts db uid search_timestamp = Inr replies
         \<and> info = \<lparr>thread_posts = filter (\<lambda>p. row_id p \<notin> row_id ` set replies) in_threads,
                    post_replies = replies\<rparr>)"
  by (auto simp: get_new_posts_for_user_def spec_queries_def Let_def
      spec_posts_in_subscribed_threads_def spec_replies_to_subscribed_posts_def)

text \<open>
  The three scenarios of section 8 of the specification, one with a post-level
  unsubscription, and one with a post made long after the others.
\<close>

lemmas scenario_defs =
  get_new_posts_for_user_def spec_queries_def
  spec_posts_in_subscribed_threads_def spec_replies_to_subscribed_posts_def
  scenario_db_def scenario_posts_def late_post_def mk_post_def subs_of_def
  subscribe_thread_def unsubscribe_thread_def unsubscribe_post_def
  thread_subscribed_def post_subscribed_def post_unsubscribed_def has_sub_def made_since_def

lemma scenario_subscribed:
  "get_new_posts_for_user spec_queries
     (scenario_db scenario_posts [subscribe_thread ''T''] (\<lambda>t. False)) ''U'' 0
   = Inr \<lparr>thread_posts = [mk_post ''P1'' ''T'' None 100],
          post_replies = [mk_post ''P2'' ''T'' (Some ''P1'') 150]\<rparr>"
  by (simp add: scenario_defs)

lemma scenario_unsubscribed_thread:
  "get_new_posts_for_user spec_queries
     (scenario_db scenario_posts [subscribe_thread ''T'', unsubscribe_thread ''T'']
        (\<lambda>t. False)) ''U'' 0
   = Inr \<lparr>thread_posts = [], post_replies = []\<rparr>"
  by (simp add: scenario_defs)

lemma scenario_muted_thread:
  "get_new_posts_for_user spec_queries
     (scenario_db scenario_posts [subscribe_thread ''T''] (\<lambda>t. t = ''T'')) ''U'' 0
   = Inr \<lparr>thread_posts = [], post_replies = []\<rparr>"
  by (simp add: scenario_defs)

lemma scenario_unsubscribed_post:
  "get_new_posts_for_user spec_queries
     (scenario_db scenario_posts [subscribe_thread ''T'', unsubscribe_post ''T'' ''P1'']
        (\<lambda>t. False)) ''U'' 0
   = Inr \<lparr>thread_posts = [mk_post ''P2'' ''T'' (Some ''P1'') 150], post_replies = []\<rparr>"
  by (simp add: scenario_defs)





text \<open>
  Claim C2. Over the queries of the specification: when the subscription of the user to
  the whole thread \<open>t\<close> is in force and the user has unsubscribed from the post \<open>p\<close> of
  \<open>t\<close>, the digest has no row for \<open>p\<close> of \<open>t\<close> and no row that is there as a reply to
  \<open>p\<close>, while every other post of \<open>t\<close> made since the timestamp is in one of the two
  lists, unless the user unsubscribed from that post too or a global override mutes the
  thread.
\<close>

theorem spec_digest_unsubscribed_post:
  assumes "thread_subscribed (subs_of db uid) t"
    and "post_unsubscribed (subs_of db uid) t p"
  shows "\<exists>info. get_new_posts_for_user spec_queries db uid search_timestamp = Inr info
       \<and> (\<forall>r \<in> set (thread_posts info) \<union> set (post_replies info).
             \<not> (thread_id r = t \<and> row_id r = p))
       \<and> (\<forall>r \<in> set (post_replies info). \<not> (thread_id r = t \<and> parent_post_id r = Some p))
       \<and> (\<forall>q \<in> set (posts db).
             thread_id q = t \<and> row_id q \<noteq> p
             \<and> made_since search_timestamp (posted_timestamp q)
             \<and> \<not> post_unsubscribed (subs_of db uid) t (row_id q)
             \<and> \<not> thread_muted db t
             \<longrightarrow> row_id q \<in> row_id ` (set (thread_posts info) \<union> set (post_replies info)))"
  using assms
  by (auto simp: spec_digest spec_posts_in_subscribed_threads_def
      spec_replies_to_subscribed_posts_def post_subscribed_def)

theorem spec_digest_unsubscribed_post_witness:
  "thread_subscribed
     (subs_of (scenario_db scenario_posts
        [subscribe_thread ''T'', unsubscribe_post ''T'' ''P1''] (\<lambda>t. False)) ''U'') ''T''
   \<and> post_unsubscribed
     (subs_of (scenario_db scenario_posts
        [subscribe_thread ''T'', unsubscribe_post ''T'' ''P1''] (\<lambda>t. False)) ''U'') ''T'' ''P1''
   \<and> (\<exists>info. get_new_posts_for_user spec_queries
         (scenario_db scenario_posts
            [subscribe_thread ''T'', unsubscribe_post ''T'' ''P1''] (\<lambda>t. False)) ''U'' 0
         = Inr info
       \<and> ''P1'' \<notin> row_id ` (set (thread_posts info) \<union> set (post_replies info))
       \<and> ''P2'' \<in> row_id ` (set (thread_posts info) \<union> set (post_replies info)))"
proof -
  let ?db = "scenario_db scenario_posts
    [subscribe_thread ''T'', unsubscribe_post ''T'' ''P1''] (\<lambda>t. False)"
  have subscribed: "thread_subscribed (subs_of ?db ''U'') ''T''"
    by (simp add: scenario_db_def subs_of_def subscribe_thread_def unsubscribe_post_def
        thread_subscribed_def has_sub_def)
  have unsubscribed: "post_unsubscribed (subs_of ?db ''U'') ''T'' ''P1''"
    by (simp add: scenario_db_def subs_of_def subscribe_thread_def unsubscribe_post_def
        post_unsubscribed_def has_sub_def)
  from spec_digest_unsubscribed_post [OF subscribed unsubscribed, of 0]
  show ?thesis
    using subscribed unsubscribed by (auto simp: scenario_unsubscribed_post mk_post_def)
qed


section \<open>Properties of the scheduled tasks\<close>

text \<open>
  As the module stands, neither name is bound, and the first call of \<^verbatim>\<open>execute\<close>
  raises \<^verbatim>\<open>NameError\<close>; and when \<^verbatim>\<open>get_new_posts\<close> raises, the hourly task stops
  there.
\<close>

lemma call_recording_globals:
  "call_global (recording_globals result) name calls = (Inr result, calls @ [name])"
  by (simp add: call_global_def recording_globals_def)

lemma execute_ignores_database:
  "execute c self globals w = execute c other globals w"
  by (cases c) simp_all

lemma execute_without_globals:
  "execute c self module_globals w
     = (Inl (name_error (if c = Hourly then ''get_new_posts'' else ''get_users'')), w)"
  by (cases c) (simp_all add: module_globals_def call_global_def)

lemma execute_hourly_stops_on_error:
  assumes "globals ''get_new_posts'' = Some get_new_posts"
    and "get_new_posts w = (Inl error, w1)"
  shows "execute Hourly self globals w = (Inl error, w1)"
  using assms by (simp add: call_global_def)

text \<open>
  Claim C9, as the code has it. When \<^verbatim>\<open>get_new_posts\<close> and \<^verbatim>\<open>get_users\<close> are
  bound to callables that return, \<^verbatim>\<open>execute\<close> of the hourly task leaves the world
  that \<^verbatim>\<open>get_new_posts\<close> followed by \<^verbatim>\<open>get_users\<close> leaves, and \<^verbatim>\<open>execute\<close> of
  the daily, weekly and monthly task leaves the world that \<^verbatim>\<open>get_users\<close> alone
  leaves; all four return normally. The outcome does not depend on the users returned,
  on the \<^verbatim>\<open>database\<close> of the task, or on what any other global name is bound to
  (for the three coarser tasks not even on \<^verbatim>\<open>get_new_posts\<close>): no digest is computed,
  nothing is delivered, no time of last notification is stored.
\<close>

theorem execute_calls:
  assumes "globals ''get_new_posts'' = Some get_new_posts"
    and "globals ''get_users'' = Some get_users"
    and "get_new_posts w = (Inr fetched, w1)"
    and "get_users w1 = (Inr users1, w2)"
    and "get_users w = (Inr users, w3)"
  shows "execute Hourly self globals w = (Inr (), w2)
       \<and> execute Daily self globals w = (Inr (), w3)
       \<and> execute Weekly self globals w = (Inr (), w3)
       \<and> execute Monthly self globals w = (Inr (), w3)
       \<and> (\<forall>c other_self other_globals.
             other_globals ''get_users'' = globals ''get_users''
             \<and> (c = Hourly \<longrightarrow> other_globals ''get_new_posts'' = globals ''get_new_posts'')
             \<longrightarrow> execute c other_self other_globals w = execute c self globals w)"
proof -
  have hourly: "execute Hourly self globals w = (Inr (), w2)"
    using assms by (simp add: call_global_def)
  have others: "execute Daily self globals w = (Inr (), w3)"
    "execute Weekly self globals w = (Inr (), w3)"
    "execute Monthly self globals w = (Inr (), w3)"
    using assms by (simp_all add: call_global_def)
  have only_these: "execute c other_self other_globals w = execute c self globals w"
    if "other_globals ''get_users'' = globals ''get_users''"
      and "c = Hourly \<longrightarrow> other_globals ''get_new_posts'' = globals ''get_new_posts''"
    for c and other_self :: "'e scheduled_task" and other_globals
    using that
    by (cases c) (auto simp: call_global_def split: option.splits prod.splits sum.splits)
  from hourly others only_these show ?thesis by blast
qed

theorem execute_calls_witness:
  "execute Hourly \<lparr>database = ()\<rparr> (recording_globals [''user1'', ''user2'']) []
     = (Inr (), [''get_new_posts'', ''get_users''])
   \<and> execute Daily \<lparr>database = ()\<rparr> (recording_globals [''user1'', ''user2'']) []
     = (Inr (), [''get_users''])"
  using execute_calls
    [of "recording_globals [''user1'', ''user2'']"
        "\<lambda>calls. (Inr [''user1'', ''user2''], calls @ [''get_new_posts''])"
        "\<lambda>calls. (Inr [''user1'', ''user2''], calls @ [''get_users''])"
        "[]" "[''user1'', ''user2'']" "[''get_new_posts'']" "[''user1'', ''user2'']"
        "[''get_new_posts'', ''get_users'']" "[''user1'', ''user2'']" "[''get_users'']"
        "\<lparr>database = ()\<rparr>"]
  by (simp add: recording_globals_def call_global_def)

text \<open>
  Claim C9 as stated fails. As the module stands, \<^verbatim>\<open>execute\<close> of the daily task
  raises \<^verbatim>\<open>NameError\<close> and leaves the world as it was. With every name bound and two
  users to notify, its only call is \<^verbatim>\<open>get_users\<close>: no digest is computed for
  either user and nothing is delivered.
\<close>

theorem execute_daily_counterexample:
  "execute Daily \<lparr>database = ()\<rparr> (module_globals :: (string list, string list) py_globals) []
     = (Inl (name_error ''get_users''), [])
   \<and> execute Daily \<lparr>database = ()\<rparr> (recording_globals [''user1'', ''user2'']) []
     = (Inr (), [''get_users''])"
  by (simp add: module_globals_def recording_globals_def call_global_def)

end
